theory Spec2Isabelle
  imports Complex_Main "HOL-Library.Multiset"
begin

section \<open>Values, rows and errors\<close>

text \<open>
  The service is JavaScript. A value whose truthiness the code tests (the \<open>paid\<close>
  column of a job) is a \<open>jsval\<close>; \<open>truthy\<close> is JavaScript's ToBoolean on it.
  Amounts (\<open>price\<close>, \<open>balance\<close>, a deposit) are JavaScript numbers read from
  two-decimal columns; they are modelled as exact rationals, so the rounding of IEEE
  doubles is outside this development.
\<close>

datatype jsval =
    JUndefined
  | JNull
  | JBool bool
  | JNum rat
  | JNaN
  | JStr string
  | JObject

fun truthy :: "jsval \<Rightarrow> bool" where
  "truthy JUndefined = False"
| "truthy JNull = False"
| "truthy (JBool b) = b"
| "truthy (JNum n) = (n \<noteq> 0)"
| "truthy JNaN = False"
| "truthy (JStr s) = (s \<noteq> [])"
| "truthy JObject = True"

text \<open>
  \<open>throwHttpError(statusCode, message)\<close> throws an \<open>Error\<close> carrying both; a read
  through \<open>null\<close> or a reduce of an empty array throws a \<open>TypeError\<close>, which has
  a message and no status code.
\<close>

datatype error =
    HttpError nat string
  | TypeError string

definition nullRead :: "string \<Rightarrow> error" where
  "nullRead property =
     TypeError (''Cannot read properties of null (reading '' @ [CHR 0x27] @ property @ [CHR 0x27] @ '')'')"

definition throwHttpError :: "nat \<Rightarrow> string \<Rightarrow> error + 'a" where
  "throwHttpError statusCode message = Inl (HttpError statusCode message)"

text \<open>The rows of the three tables, and the shapes the queries return.\<close>

record profile =
  pid :: nat
  firstName :: string
  lastName :: string
  profession :: string
  balance :: rat
  type :: string

record contract =
  cid :: nat
  status :: string
  ContractorId :: nat
  ClientId :: nat

record job =
  jid :: nat
  price :: rat
  paid :: jsval
  paymentDate :: "int option"
  ContractId :: nat

text \<open>
  A job fetched for payment includes its contract, which includes both profiles
  (\<open>null\<close>, here \<open>None\<close>, when the joined row is missing).
\<close>

record contract_incl = contract +
  Client :: "profile option"
  Contractor :: "profile option"

record job_incl = job +
  Contract :: contract_incl

section \<open>The validator\<close>

definition validateJobClientType :: "string \<Rightarrow> error + unit" where
  "validateJobClientType profileType =
     (if profileType \<noteq> ''client''
      then throwHttpError 403 ''Only clients can pay for a job''
      else Inr ())"

definition validatePayJob :: "job_incl option \<Rightarrow> error + unit" where
  "validatePayJob job =
     (case job of
        None \<Rightarrow> throwHttpError 404 ''Job not found''
      | Some j \<Rightarrow>
          if truthy (paid j) then throwHttpError 400 ''Job is already paid''
          else (case Client (Contract j) of
                  None \<Rightarrow> Inl (nullRead ''balance'')
                | Some c \<Rightarrow>
                    if price j > balance c
                    then throwHttpError 400 ''Not enough balance to pay for this job''
                    else Inr ()))"

text \<open>
  The profile fetched for a deposit, or for the best-clients query, includes the
  contracts where it is the client (\<open>user.Client\<close>, here \<open>Client_contracts\<close>), each
  with the jobs the query kept; the profile fetched for the best-profession query
  includes the contracts where it is the contractor (\<open>user.Contractor\<close>).
\<close>

record contract_jobs = contract +
  Jobs :: "job list"

record client_incl = profile +
  Client_contracts :: "contract_jobs list"

record contractor_incl = profile +
  Contractor_contracts :: "contract_jobs list"

text \<open>
  \<open>depositValue\<close> is \<open>req.body.value\<close>: a JSON number, or \<open>undefined\<close> (here
  \<open>None\<close>) when the body has none. \<open>!depositValue\<close> holds of \<open>undefined\<close> and of
  zero. The message interpolates the total with the runtime's Number-to-String
  conversion, the parameter \<open>numberToString\<close>.
\<close>

definition totalJobsToPayAmount :: "client_incl \<Rightarrow> rat" where
  "totalJobsToPayAmount user =
     foldl (\<lambda>sum contract.
              sum + foldl (\<lambda>currentSum job. currentSum + price job) 0 (Jobs contract))
           0 (Client_contracts user)"

definition capMessage :: "(rat \<Rightarrow> string) \<Rightarrow> rat \<Rightarrow> string" where
  "capMessage numberToString amount =
     ''Client can'' @ [CHR 0x27] @ ''t deposit more than 25% his total of jobs to pay (''
       @ numberToString amount @ '')''"

definition validateDepositBalance ::
    "(rat \<Rightarrow> string) \<Rightarrow> client_incl option \<Rightarrow> rat option \<Rightarrow> error + unit" where
  "validateDepositBalance numberToString user depositValue =
     (case user of
        None \<Rightarrow> throwHttpError 404 ''User not found''
      | Some u \<Rightarrow>
          if type u \<noteq> ''client'' then throwHttpError 400 ''User is not a client''
          else (case depositValue of
                  None \<Rightarrow> throwHttpError 400 ''Deposit value is invalid (should be > 0)''
                | Some v \<Rightarrow>
                    if v = 0 \<or> v \<le> 0
                    then throwHttpError 400 ''Deposit value is invalid (should be > 0)''
                    else if v > (1 / 4) * totalJobsToPayAmount u
                    then throwHttpError 400 (capMessage numberToString (totalJobsToPayAmount u))
                    else Inr ()))"

text \<open>Decimal digits, and the number a string of digits denotes.\<close>

definition is_digit :: "char \<Rightarrow> bool" where
  "is_digit c = (c \<in> set ''0123456789'')"

definition digit_of :: "char \<Rightarrow> nat" where
  "digit_of c = of_char c - 48"

definition nat_of_digits :: "string \<Rightarrow> nat" where
  "nat_of_digits s = foldl (\<lambda>n c. 10 * n + digit_of c) 0 s"

text \<open>
  Modelled from the spec: \<open>dayjs(date, 'YYYY-MM-DD', true).isValid()\<close>, the strict
  parser of the dayjs library, which is not among the sources. The spec's words: the
  string must parse as a strict calendar date in \<open>YYYY-MM-DD\<close> format, with no
  leniency (day 31 in a 28-, 29- or 30-day month is invalid, not normalized). So: four
  digits, a hyphen, two digits, a hyphen, two digits; a month from 1 to 12; a day from
  1 to the length of that month in that year (\<open>leap_year\<close>, \<open>days_in_month\<close>).
\<close>

definition leap_year :: "nat \<Rightarrow> bool" where
  "leap_year y = (y mod 4 = 0 \<and> (y mod 100 \<noteq> 0 \<or> y mod 400 = 0))"

definition days_in_month :: "nat \<Rightarrow> nat \<Rightarrow> nat" where
  "days_in_month y m =
     (if m = 2 then (if leap_year y then 29 else 28)
      else if m \<in> set [4, 6, 9, 11] then 30
      else 31)"

text \<open>
  Modelled from the spec: \<open>isValid\<close> of the strict parse, which is not among the
  sources; the shape and the calendar test described above.
\<close>

definition dayjs_isValid :: "string \<Rightarrow> bool" where
  "dayjs_isValid date =
     (case date of
        [y1, y2, y3, y4, s1, m1, m2, s2, d1, d2] \<Rightarrow>
          list_all is_digit [y1, y2, y3, y4, m1, m2, d1, d2]
          \<and> s1 = CHR ''-'' \<and> s2 = CHR ''-''
          \<and> (let y = nat_of_digits [y1, y2, y3, y4];
                  m = nat_of_digits [m1, m2];
                  d = nat_of_digits [d1, d2]
              in 1 \<le> m \<and> m \<le> 12 \<and> 1 \<le> d \<and> d \<le> days_in_month y m)
      | _ \<Rightarrow> False)"

text \<open>
  \<open>validateDates\<close> is the source's loop: it throws at the first date that is not
  valid, and the message ends with that date.
\<close>

fun validateDates :: "string list \<Rightarrow> error + unit" where
  "validateDates [] = Inr ()"
| "validateDates (date # dates) =
     (if \<not> dayjs_isValid date then throwHttpError 400 (''Invalid date: '' @ date)
      else validateDates dates)"

section \<open>Paying for a job\<close>

text \<open>
  The persistence layer is three tables of rows. \<open>findJobForPay\<close> is the handler's
  \<open>Job.findOne\<close>: the job with the requested id, joined (inner) with its contract
  when that contract has the caller as client and is new or in progress, and that
  contract joined (outer) with its two profiles.
\<close>

record db =
  Profile_rows :: "profile list"
  Contract_rows :: "contract list"
  Job_rows :: "job list"

definition include_profiles :: "db \<Rightarrow> contract \<Rightarrow> contract_incl" where
  "include_profiles d c =
     \<lparr>cid = cid c, status = status c, ContractorId = ContractorId c, ClientId = ClientId c,
      Client = find (\<lambda>p. pid p = ClientId c) (Profile_rows d),
      Contractor = find (\<lambda>p. pid p = ContractorId c) (Profile_rows d)\<rparr>"

definition include_contract :: "job \<Rightarrow> contract_incl \<Rightarrow> job_incl" where
  "include_contract j c =
     \<lparr>jid = jid j, price = price j, paid = paid j, paymentDate = paymentDate j,
      ContractId = ContractId j, Contract = c\<rparr>"

definition findJobForPay :: "db \<Rightarrow> nat \<Rightarrow> nat \<Rightarrow> job_incl option" where
  "findJobForPay d profileId jobId =
     (case [(j, c). j \<leftarrow> Job_rows d, jid j = jobId,
                    c \<leftarrow> Contract_rows d,
                    cid c = ContractId j \<and> ClientId c = profileId
                      \<and> status c \<in> set [''new'', ''in_progress'']] of
        [] \<Rightarrow> None
      | (j, c) # _ \<Rightarrow> Some (include_contract j (include_profiles d c)))"

text \<open>
  \<open>update\<close>, \<open>decrement\<close> and \<open>increment\<close> on a fetched instance are an SQL
  \<open>UPDATE ... WHERE id = <the instance's id>\<close> on its table.
\<close>

definition update_where :: "('a \<Rightarrow> bool) \<Rightarrow> ('a \<Rightarrow> 'a) \<Rightarrow> 'a list \<Rightarrow> 'a list" where
  "update_where P f rows = map (\<lambda>r. if P r then f r else r) rows"

definition job_update :: "job_incl \<Rightarrow> int \<Rightarrow> db \<Rightarrow> db" where
  "job_update j now d =
     d\<lparr>Job_rows := update_where (\<lambda>r. jid r = jid j)
                        (\<lambda>r. r\<lparr>paid := JBool True, paymentDate := Some now\<rparr>) (Job_rows d)\<rparr>"

definition decrement :: "profile \<Rightarrow> rat \<Rightarrow> db \<Rightarrow> db" where
  "decrement p amount d =
     d\<lparr>Profile_rows := update_where (\<lambda>r. pid r = pid p)
                            (\<lambda>r. r\<lparr>balance := balance r - amount\<rparr>) (Profile_rows d)\<rparr>"

definition increment :: "profile \<Rightarrow> rat \<Rightarrow> db \<Rightarrow> db" where
  "increment p amount d =
     d\<lparr>Profile_rows := update_where (\<lambda>r. pid r = pid p)
                            (\<lambda>r. r\<lparr>balance := balance r + amount\<rparr>) (Profile_rows d)\<rparr>"

text \<open>
  The body of \<open>sequelize.transaction\<close>: three writes in order. A throw inside it
  (a \<open>null\<close> profile) is \<open>Inl\<close>, and the caller then keeps the database it had:
  the transaction is rolled back.
\<close>

definition payTransaction :: "job_incl \<Rightarrow> int \<Rightarrow> db \<Rightarrow> error + db" where
  "payTransaction j now d =
     (let d1 = job_update j now d in
      case Client (Contract j) of
        None \<Rightarrow> Inl (nullRead ''decrement'')
      | Some client \<Rightarrow>
          let d2 = decrement client (price j) d1 in
          (case Contractor (Contract j) of
             None \<Rightarrow> Inl (nullRead ''increment'')
           | Some contractor \<Rightarrow> Inr (increment contractor (price j) d2)))"

text \<open>
  A response is a status and a body. The last middleware of the application answers a
  thrown error with \<open>err.statusCode || 500\<close> and \<open>{message: err.message}\<close>.
\<close>

datatype 'a body =
    NoBody
  | Message string
  | MessageError error
  | Json 'a

datatype 'a response = Response nat "'a body"

definition errorHandler :: "error \<Rightarrow> 'a response" where
  "errorHandler err =
     (case err of
        HttpError statusCode message \<Rightarrow>
          Response (if statusCode = 0 then 500 else statusCode) (Message message)
      | TypeError message \<Rightarrow> Response 500 (Message message))"

text \<open>
  \<open>POST /jobs/:job_id/pay\<close>, for the caller \<open>reqProfile\<close> that the authentication
  middleware resolved, at time \<open>now\<close>. It returns the response and the database it
  leaves.
\<close>

definition payJob :: "db \<Rightarrow> profile \<Rightarrow> nat \<Rightarrow> int \<Rightarrow> unit response \<times> db" where
  "payJob d reqProfile jobId now =
     (case validateJobClientType (type reqProfile) of
        Inl e \<Rightarrow> (errorHandler e, d)
      | Inr _ \<Rightarrow>
          let job = findJobForPay d (pid reqProfile) jobId in
          (case validatePayJob job of
             Inl e \<Rightarrow> (errorHandler e, d)
           | Inr _ \<Rightarrow>
               (case (case job of
                        None \<Rightarrow> Inl (nullRead ''update'')
                      | Some j \<Rightarrow> payTransaction j now d) of
                  Inl error \<Rightarrow> (Response 400 (MessageError error), d)
                | Inr d' \<Rightarrow> (Response 201 NoBody, d'))))"

section \<open>The aggregation queries\<close>

text \<open>
  Both queries sum \<open>job.price || 0\<close> over the jobs of the contracts of a fetched
  profile; \<open>x || 0\<close> is \<open>x\<close> unless \<open>x\<close> is falsy.
\<close>

definition price_or_0 :: "job \<Rightarrow> rat" where
  "price_or_0 j = (if price j \<noteq> 0 then price j else 0)"

definition contractsSum :: "contract_jobs list \<Rightarrow> rat" where
  "contractsSum contracts =
     foldl (\<lambda>sum contract.
              sum + foldl (\<lambda>currentSum job. currentSum + price_or_0 job) 0 (Jobs contract))
           0 contracts"

text \<open>
  \<open>professionMap\<close> is an object used as a dictionary from profession to number: an
  association list in insertion order. Assigning to a key it has keeps the key's
  place; assigning to a new key appends it. Professions are taken to be names that
  \<open>Object.prototype\<close> does not define.
\<close>

fun assign :: "string \<Rightarrow> rat \<Rightarrow> (string \<times> rat) list \<Rightarrow> (string \<times> rat) list" where
  "assign k v [] = [(k, v)]"
| "assign k v ((k', v') # m) = (if k' = k then (k, v) # m else (k', v') # assign k v m)"

text \<open>
  One round of \<open>users.forEach\<close>: when the entry is missing or zero it is set to
  \<open>0\<close>, then the user's sum is added to it.
\<close>

definition addUser :: "(string \<times> rat) list \<Rightarrow> contractor_incl \<Rightarrow> (string \<times> rat) list" where
  "addUser professionMap user =
     (let p = profession user; s = contractsSum (Contractor_contracts user) in
      case map_of professionMap p of
        None \<Rightarrow> assign p (0 + s) (assign p 0 professionMap)
      | Some v \<Rightarrow>
          if v = 0 then assign p (0 + s) (assign p 0 professionMap)
          else assign p (v + s) professionMap)"

text \<open>
  \<open>Object.keys\<close> lists the keys that are array indices first, in ascending numeric
  order, then the other keys in insertion order.
\<close>

definition is_array_index :: "string \<Rightarrow> bool" where
  "is_array_index k =
     (k \<noteq> [] \<and> list_all is_digit k \<and> (length k = 1 \<or> hd k \<noteq> CHR ''0'')
      \<and> nat_of_digits k < 2 ^ 32 - 1)"

definition object_keys :: "(string \<times> rat) list \<Rightarrow> string list" where
  "object_keys m =
     sort_key nat_of_digits (filter is_array_index (map fst m))
       @ filter (\<lambda>k. \<not> is_array_index k) (map fst m)"

text \<open>\<open>reduce\<close> without an initial value throws on an empty array.\<close>

fun reduce1 :: "('a \<Rightarrow> 'a \<Rightarrow> 'a) \<Rightarrow> 'a list \<Rightarrow> error + 'a" where
  "reduce1 f [] = Inl (TypeError ''Reduce of empty array with no initial value'')"
| "reduce1 f (x # xs) = Inr (foldl f x xs)"

text \<open>
  A comparison with \<open>undefined\<close> is false, so \<open>professionMap[a] > professionMap[b]\<close>
  and \<open>professionMap[a] > 0\<close> are false when a key is missing.
\<close>

definition entry_gt :: "(string \<times> rat) list \<Rightarrow> string \<Rightarrow> string \<Rightarrow> bool" where
  "entry_gt m a b =
     (case (map_of m a, map_of m b) of (Some x, Some y) \<Rightarrow> x > y | _ \<Rightarrow> False)"

definition entry_positive :: "(string \<times> rat) list \<Rightarrow> string \<Rightarrow> bool" where
  "entry_positive m a = (case map_of m a of Some x \<Rightarrow> x > 0 | None \<Rightarrow> False)"

definition bestProfession :: "contractor_incl list \<Rightarrow> error + string" where
  "bestProfession users =
     (let professionMap = foldl addUser [] users in
      case reduce1 (\<lambda>a b. if entry_gt professionMap a b then a else b)
                   (object_keys professionMap) of
        Inl e \<Rightarrow> Inl e
      | Inr best \<Rightarrow>
          Inr (if entry_positive professionMap best then best
               else ''No professions were paid in this time range''))"

text \<open>
  \<open>GET /admin/best-profession\<close>; \<open>users\<close> is what the query for the contractors
  with their paid jobs between \<open>start\<close> and \<open>end\<close> returns.
\<close>

definition getBestProfession :: "string \<Rightarrow> string \<Rightarrow> contractor_incl list \<Rightarrow> string response" where
  "getBestProfession start end users =
     (case validateDates [start, end] of
        Inl e \<Rightarrow> errorHandler e
      | Inr _ \<Rightarrow>
          (case bestProfession users of
             Inl e \<Rightarrow> errorHandler e
           | Inr answer \<Rightarrow> Response 200 (Json answer)))"

text \<open>An entry of the best-clients answer: \<open>{id, fullName, paid}\<close>.\<close>

record client_entry =
  entry_id :: nat
  fullName :: string
  entry_paid :: rat

definition toEntry :: "client_incl \<Rightarrow> client_entry" where
  "toEntry user =
     \<lparr>entry_id = pid user,
      fullName = firstName user @ '' '' @ lastName user,
      entry_paid = contractsSum (Client_contracts user)\<rparr>"

definition byPaid :: "client_entry \<Rightarrow> client_entry \<Rightarrow> int" where
  "byPaid a b = (if entry_paid a > entry_paid b then - 1 else 1)"

text \<open>
  \<open>Array.prototype.sort\<close> is the engine's. It is modelled as insertion into a sorted
  prefix: an element goes before the first element that the comparator puts it
  before (a negative answer). The order the engine leaves among entries that the
  comparator does not separate is not fixed by this model.
\<close>

fun insert_by :: "('a \<Rightarrow> 'a \<Rightarrow> int) \<Rightarrow> 'a \<Rightarrow> 'a list \<Rightarrow> 'a list" where
  "insert_by cmp x [] = [x]"
| "insert_by cmp x (y # ys) = (if cmp x y < 0 then x # y # ys else y # insert_by cmp x ys)"

definition array_sort :: "('a \<Rightarrow> 'a \<Rightarrow> int) \<Rightarrow> 'a list \<Rightarrow> 'a list" where
  "array_sort cmp xs = foldl (\<lambda>sorted x. insert_by cmp x sorted) [] xs"

text \<open>
  \<open>slice(0, end)\<close>: a negative \<open>end\<close> counts from the end of the array. \<open>limit\<close>
  is the integer that the query's \<open>limit\<close> converts to, \<open>None\<close> when the query has
  none, and then it is 2.
\<close>

definition slice0 :: "int \<Rightarrow> 'a list \<Rightarrow> 'a list" where
  "slice0 e xs =
     (let len = int (length xs);
          final = (if e < 0 then max (len + e) 0 else min e len)
      in take (nat final) xs)"

definition bestClients :: "client_incl list \<Rightarrow> int option \<Rightarrow> client_entry list" where
  "bestClients users limit =
     slice0 (case limit of None \<Rightarrow> 2 | Some n \<Rightarrow> n) (array_sort byPaid (map toEntry users))"

definition getBestClients ::
    "string \<Rightarrow> string \<Rightarrow> int option \<Rightarrow> client_incl list \<Rightarrow> client_entry list response" where
  "getBestClients start end limit users =
     (case validateDates [start, end] of
        Inl e \<Rightarrow> errorHandler e
      | Inr _ \<Rightarrow> Response 200 (Json (bestClients users limit)))"

section \<open>The fixtures of the validator's tests\<close>

definition harry :: profile where
  "harry = \<lparr>pid = 1, firstName = ''Harry'', lastName = ''Potter'', profession = ''Wizard'',
            balance = 1250, type = ''client''\<rparr>"

definition linus :: profile where
  "linus = \<lparr>pid = 6, firstName = ''Linus'', lastName = ''Torvalds'',
            profession = ''Programmer'', balance = 1214, type = ''contractor''\<rparr>"

definition test_job :: "rat \<Rightarrow> jsval \<Rightarrow> job_incl" where
  "test_job amount p =
     \<lparr>jid = 2, price = amount, paid = p, paymentDate = None, ContractId = 2,
      Contract = \<lparr>cid = 2, status = ''in_progress'', ContractorId = 6, ClientId = 1,
                  Client = Some harry, Contractor = Some linus\<rparr>\<rparr>"

definition test_user :: "string \<Rightarrow> client_incl" where
  "test_user t =
     \<lparr>pid = 1, firstName = ''Harry'', lastName = ''Potter'', profession = ''Wizard'',
      balance = 1150, type = t,
      Client_contracts =
        [\<lparr>cid = 1, status = ''terminated'', ContractorId = 5, ClientId = 1,
          Jobs = [\<lparr>jid = 1, price = 200, paid = JNull, paymentDate = None, ContractId = 1\<rparr>]\<rparr>,
         \<lparr>cid = 2, status = ''in_progress'', ContractorId = 6, ClientId = 1,
          Jobs = [\<lparr>jid = 2, price = 201, paid = JNull, paymentDate = None, ContractId = 2\<rparr>]\<rparr>]\<rparr>"

text \<open>A database holding the same rows, for the pay-job handler.\<close>

definition test_db :: db where
  "test_db =
     \<lparr>Profile_rows = [harry, linus],
      Contract_rows = [\<lparr>cid = 2, status = ''in_progress'', ContractorId = 6, ClientId = 1\<rparr>],
      Job_rows = [\<lparr>jid = 2, price = 201, paid = JNull, paymentDate = None, ContractId = 2\<rparr>]\<rparr>"


text \<open>A client whose only contract has no unpaid job.\<close>

definition idle_client :: client_incl where
  "idle_client =
     \<lparr>pid = 4, firstName = ''Ash'', lastName = ''Kethcum'', profession = ''Pokemon master'',
      balance = 1, type = ''client'',
      Client_contracts = [\<lparr>cid = 7, status = ''in_progress'', ContractorId = 7, ClientId = 4,
                           Jobs = []\<rparr>]\<rparr>"

text \<open>Three clients whose paid jobs in range sum to 300, 0 and 500, in fetch order.\<close>

definition client_with :: "nat \<Rightarrow> string \<Rightarrow> string \<Rightarrow> rat list \<Rightarrow> client_incl" where
  "client_with i name surname prices =
     \<lparr>pid = i, firstName = name, lastName = surname, profession = ''Wizard'', balance = 0,
      type = ''client'',
      Client_contracts =
        [\<lparr>cid = i, status = ''in_progress'', ContractorId = 6, ClientId = i,
          Jobs = map (\<lambda>a. \<lparr>jid = i, price = a, paid = JBool True, paymentDate = Some 1000,
                             ContractId = i\<rparr>) prices\<rparr>]\<rparr>"

definition three_clients :: "client_incl list" where
  "three_clients =
     [client_with 2 ''Mr'' ''Robot'' [100, 200],
      client_with 3 ''John'' ''Snow'' [],
      client_with 1 ''Harry'' ''Potter'' [500]]"

text \<open>
  What a profession earned: the sum, over the fetched contractors of that profession,
  of their jobs' prices.
\<close>

abbreviation professionTotal :: "contractor_incl list \<Rightarrow> string \<Rightarrow> rat" where
  "professionTotal users p \<equiv>
     (\<Sum>u \<leftarrow> filter (\<lambda>u. profession u = p) users. contractsSum (Contractor_contracts u))"

text \<open>A list of entries in descending order of \<open>paid\<close>.\<close>

abbreviation descending :: "client_entry list \<Rightarrow> bool" where
  "descending es \<equiv> sorted_wrt (\<lambda>a b. entry_paid a \<ge> entry_paid b) es"

section \<open>Sums, lookups and sorting\<close>

lemma foldl_add_sum_list:
  "foldl (\<lambda>acc x. acc + f x) (a::rat) xs = a + sum_list (map f xs)"
  by (induction xs arbitrary: a) (simp_all add: add.assoc)

lemma foldl_nested_sum_list:
  "foldl (\<lambda>sum c. sum + foldl (\<lambda>currentSum x. currentSum + f x) 0 (g c)) (a::rat) cs
     = a + sum_list (map f (concat (map g cs)))"
  by (induction cs arbitrary: a) (simp_all add: foldl_add_sum_list add.assoc)


lemma price_or_0: "price_or_0 = price"
  by (rule ext) (simp add: price_or_0_def)

lemma contractsSum_sum: "contractsSum cs = (\<Sum>j \<leftarrow> concat (map Jobs cs). price j)"
  by (simp add: contractsSum_def foldl_nested_sum_list price_or_0)




lemma mset_insert_by: "mset (insert_by cmp x xs) = add_mset x (mset xs)"
  by (induction xs) simp_all

lemma set_insert_by: "set (insert_by cmp x xs) = insert x (set xs)"
  by (induction xs) auto

lemma descending_insert_by: "descending xs \<Longrightarrow> descending (insert_by byPaid x xs)"
  by (induction xs) (auto simp: set_insert_by byPaid_def split: if_splits)

lemma mset_foldl_insert_by:
  "mset (foldl (\<lambda>sorted x. insert_by cmp x sorted) acc xs) = mset acc + mset xs"
  by (induction xs arbitrary: acc) (simp_all add: mset_insert_by)

lemma descending_foldl_insert_by:
  "descending acc \<Longrightarrow> descending (foldl (\<lambda>sorted x. insert_by byPaid x sorted) acc xs)"
  by (induction xs arbitrary: acc) (simp_all add: descending_insert_by)

lemma mset_array_sort: "mset (array_sort cmp xs) = mset xs"
  by (simp add: array_sort_def mset_foldl_insert_by)

lemma descending_array_sort: "descending (array_sort byPaid xs)"
  unfolding array_sort_def by (rule descending_foldl_insert_by) simp

lemma slice0_nat: "slice0 (int n) xs = take n xs"
  by (simp add: slice0_def Let_def min_def)

lemma slice0_prefix: "\<exists>k. slice0 e xs = take k xs"
  unfolding slice0_def Let_def by blast

lemma map_of_assign: "map_of (assign k v m) = (map_of m)(k \<mapsto> v)"
  by (induction m) (auto simp: fun_eq_iff)

lemma map_of_addUser:
  "map_of (addUser m u) =
     (map_of m)(profession u \<mapsto>
        (case map_of m (profession u) of None \<Rightarrow> 0 | Some v \<Rightarrow> v)
          + contractsSum (Contractor_contracts u))"
  by (simp add: addUser_def Let_def map_of_assign split: option.splits)

lemma map_of_foldl_addUser:
  "map_of (foldl addUser m users) p =
     (if p \<in> profession ` set users
      then Some ((case map_of m p of None \<Rightarrow> 0 | Some v \<Rightarrow> v) + professionTotal users p)
      else map_of m p)"
proof (induction users arbitrary: m)
  case Nil
  show ?case by simp
next
  case (Cons u users)
  have none: "filter (\<lambda>u. profession u = q) users = []" if "q \<notin> profession ` set users" for q
    using that by (auto simp: filter_empty_conv)
  show ?case
    by (auto simp: Cons.IH map_of_addUser add.assoc none split: option.splits)
qed

lemma set_object_keys: "set (object_keys m) = fst ` set m"
  by (auto simp: object_keys_def)

lemma foldl_choice_in_set:
  assumes "\<And>a b. f a b = a \<or> f a b = b"
  shows "foldl f x xs \<in> set (x # xs)"
  using assms
proof (induction xs arbitrary: x)
  case Nil
  show ?case by simp
next
  case (Cons y ys)
  from Cons.IH [of "f x y"] Cons.prems have "foldl f (f x y) ys \<in> set (f x y # ys)" by blast
  moreover have "f x y = x \<or> f x y = y" by (rule Cons.prems)
  ultimately show ?case by auto
qed

text \<open>
  With at least one contractor fetched and no profession earning anything, the
  answer is the fallback string.
\<close>

lemma bestProfession_nothing_paid:
  assumes nonempty: "users \<noteq> []"
    and zero: "\<forall>u \<in> set users. professionTotal users (profession u) \<le> 0"
  shows "bestProfession users = Inr ''No professions were paid in this time range''"
proof -
  let ?m = "foldl addUser [] users"
  let ?f = "\<lambda>a b. if entry_gt ?m a b then a else b"
  have keys: "set (object_keys ?m) = profession ` set users"
  proof -
    have "fst ` set ?m = dom (map_of ?m)" by (simp add: dom_map_of_conv_image_fst)
    also have "\<dots> = profession ` set users"
      by (auto simp: dom_def map_of_foldl_addUser split: if_splits)
    finally show ?thesis by (simp add: set_object_keys)
  qed
  with nonempty obtain k ks where ks: "object_keys ?m = k # ks"
    by (cases "object_keys ?m") auto
  have "foldl ?f k ks \<in> set (k # ks)"
    by (rule foldl_choice_in_set) simp
  with keys ks obtain u where u: "u \<in> set users" "foldl ?f k ks = profession u" by auto
  have "\<not> entry_positive ?m (foldl ?f k ks)"
    using u zero by (auto simp: entry_positive_def map_of_foldl_addUser)
  then show ?thesis
    by (simp add: bestProfession_def Let_def ks)
qed

section \<open>The claims\<close>



text \<open>
  C2. The payable-job validation applies its checks in this order: an absent record
  fails as not-found; otherwise a truthy \<open>paid\<close> fails as invalid-request ``already
  paid'', whatever the balance; otherwise a price strictly above the client's balance
  fails as invalid-request ``not enough balance''; otherwise it passes.
\<close>

theorem validatePayJob_checks_in_order:
  "validatePayJob None = Inl (HttpError 404 ''Job not found'')
   \<and> (truthy (paid j) \<longrightarrow>
        validatePayJob (Some j) = Inl (HttpError 400 ''Job is already paid''))
   \<and> (\<not> truthy (paid j) \<and> Client (Contract j) = Some c \<and> price j > balance c \<longrightarrow>
        validatePayJob (Some j) = Inl (HttpError 400 ''Not enough balance to pay for this job''))
   \<and> (\<not> truthy (paid j) \<and> Client (Contract j) = Some c \<and> price j \<le> balance c \<longrightarrow>
        validatePayJob (Some j) = Inr ())"
  by (simp add: validatePayJob_def throwHttpError_def)

theorem validatePayJob_checks_in_order_witness:
  "validatePayJob (Some (test_job 3000 (JBool True))) = Inl (HttpError 400 ''Job is already paid'')
   \<and> validatePayJob (Some (test_job 3000 JNull))
       = Inl (HttpError 400 ''Not enough balance to pay for this job'')
   \<and> validatePayJob (Some (test_job 1250 JNull)) = Inr ()
   \<and> validatePayJob (Some (test_job 201 JNull)) = Inr ()"
  using validatePayJob_checks_in_order [of "test_job 3000 (JBool True)" harry]
    validatePayJob_checks_in_order [of "test_job 3000 JNull" harry]
    validatePayJob_checks_in_order [of "test_job 1250 JNull" harry]
    validatePayJob_checks_in_order [of "test_job 201 JNull" harry]
  by (simp add: test_job_def harry_def)



text \<open>
  C4. A caller whose profile type is not exactly \<open>client\<close> gets 403 from the pay-job
  operation, whatever the database holds and with the database untouched: the job is
  never looked up. For a caller of type \<open>client\<close> the role check passes and the
  outcome is that of the payable-job validation on the job found, then of the
  transaction.
\<close>

theorem payJob_client_only:
  "(type reqProfile \<noteq> ''client'' \<longrightarrow>
      validateJobClientType (type reqProfile)
        = Inl (HttpError 403 ''Only clients can pay for a job'')
    \<and> payJob d reqProfile jobId now
        = (Response 403 (Message ''Only clients can pay for a job''), d))
   \<and> (type reqProfile = ''client'' \<longrightarrow>
      validateJobClientType (type reqProfile) = Inr ()
    \<and> (\<forall>e. validatePayJob (findJobForPay d (pid reqProfile) jobId) = Inl e \<longrightarrow>
           payJob d reqProfile jobId now = (errorHandler e, d))
    \<and> (validatePayJob (findJobForPay d (pid reqProfile) jobId) = Inr () \<longrightarrow>
           (\<exists>j. findJobForPay d (pid reqProfile) jobId = Some j
              \<and> payJob d reqProfile jobId now =
                  (case payTransaction j now d of
                     Inl error \<Rightarrow> (Response 400 (MessageError error), d)
                   | Inr d' \<Rightarrow> (Response 201 NoBody, d')))))"
proof (cases "findJobForPay d (pid reqProfile) jobId")
  case None
  then show ?thesis
    by (auto simp: payJob_def validateJobClientType_def validatePayJob_def throwHttpError_def
        errorHandler_def Let_def)
next
  case (Some j)
  then show ?thesis
    by (auto simp: payJob_def validateJobClientType_def throwHttpError_def errorHandler_def
        Let_def)
qed

theorem payJob_client_only_witness:
  "payJob test_db linus 2 1000 = (Response 403 (Message ''Only clients can pay for a job''), test_db)
   \<and> payJob test_db harry 3 1000 = (Response 404 (Message ''Job not found''), test_db)
   \<and> fst (payJob test_db harry 2 1000) = Response 201 NoBody"
proof -
  have nf: "validatePayJob (findJobForPay test_db (pid harry) 3) = Inl (HttpError 404 ''Job not found'')"
    by (simp add: findJobForPay_def validatePayJob_def throwHttpError_def test_db_def)
  have ok: "validatePayJob (findJobForPay test_db (pid harry) 2) = Inr ()"
    by (simp add: findJobForPay_def validatePayJob_def throwHttpError_def test_db_def
        include_contract_def include_profiles_def harry_def linus_def)
  have tx: "\<And>j. findJobForPay test_db (pid harry) 2 = Some j \<Longrightarrow> \<exists>d'. payTransaction j 1000 test_db = Inr d'"
    by (auto simp: findJobForPay_def test_db_def payTransaction_def Let_def
        include_contract_def include_profiles_def harry_def linus_def)
  show ?thesis
    using payJob_client_only [of linus test_db 2 1000]
      payJob_client_only [of harry test_db 3 1000] nf
      payJob_client_only [of harry test_db 2 1000] ok tx
    by (auto simp: linus_def harry_def errorHandler_def)
qed

text \<open>
  C5. The deposit validation rejects, in this order and each with its message: an
  absent profile as not-found, whatever the amount; a profile that is not a client as
  invalid-request, whatever the amount; an amount that is missing, zero or negative as
  invalid-request.
\<close>

theorem validateDepositBalance_rejections:
  "validateDepositBalance numberToString None depositValue
     = Inl (HttpError 404 ''User not found'')
   \<and> (type u \<noteq> ''client'' \<longrightarrow>
        validateDepositBalance numberToString (Some u) depositValue
          = Inl (HttpError 400 ''User is not a client''))
   \<and> (type u = ''client'' \<and> (depositValue = None \<or> (\<exists>v. depositValue = Some v \<and> v \<le> 0)) \<longrightarrow>
        validateDepositBalance numberToString (Some u) depositValue
          = Inl (HttpError 400 ''Deposit value is invalid (should be > 0)''))"
  by (auto simp: validateDepositBalance_def throwHttpError_def)

theorem validateDepositBalance_rejections_witness:
  "validateDepositBalance (\<lambda>n. ''401'') (Some (test_user ''contractor'')) (Some 100)
     = Inl (HttpError 400 ''User is not a client'')
   \<and> validateDepositBalance (\<lambda>n. ''401'') (Some (test_user ''contractor'')) (Some (- 200))
     = Inl (HttpError 400 ''User is not a client'')
   \<and> validateDepositBalance (\<lambda>n. ''401'') (Some (test_user ''client'')) (Some (- 200))
     = Inl (HttpError 400 ''Deposit value is invalid (should be > 0)'')
   \<and> validateDepositBalance (\<lambda>n. ''401'') (Some (test_user ''client'')) (Some 0)
     = Inl (HttpError 400 ''Deposit value is invalid (should be > 0)'')
   \<and> validateDepositBalance (\<lambda>n. ''401'') (Some (test_user ''client'')) None
     = Inl (HttpError 400 ''Deposit value is invalid (should be > 0)'')"
  using validateDepositBalance_rejections [of "\<lambda>n. ''401''" "Some 100" "test_user ''contractor''"]
    validateDepositBalance_rejections [of "\<lambda>n. ''401''" "Some (- 200)" "test_user ''contractor''"]
    validateDepositBalance_rejections [of "\<lambda>n. ''401''" "Some (- 200)" "test_user ''client''"]
    validateDepositBalance_rejections [of "\<lambda>n. ''401''" "Some 0" "test_user ''client''"]
    validateDepositBalance_rejections [of "\<lambda>n. ''401''" "None" "test_user ''client''"]
  by (simp add: test_user_def)

text \<open>
  C6. The date-range validation goes through the strings in order and fails, as
  invalid-request naming that string, at the first one that is not a strict
  \<open>YYYY-MM-DD\<close> calendar date; it passes exactly when every string is one.
  \<open>2020-12-31\<close> is such a date; \<open>2020-02-31\<close> and \<open>123456\<close> are not.
\<close>

theorem validateDates_first_invalid:
  "validateDates dates =
     (case find (\<lambda>date. \<not> dayjs_isValid date) dates of
        None \<Rightarrow> Inr ()
      | Some date \<Rightarrow> Inl (HttpError 400 (''Invalid date: '' @ date)))
   \<and> (validateDates dates = Inr ()) = list_all dayjs_isValid dates
   \<and> dayjs_isValid ''2020-12-31''
   \<and> \<not> dayjs_isValid ''2020-02-31''
   \<and> \<not> dayjs_isValid ''123456''"
proof -
  have first: "validateDates dates =
     (case find (\<lambda>date. \<not> dayjs_isValid date) dates of
        None \<Rightarrow> Inr ()
      | Some date \<Rightarrow> Inl (HttpError 400 (''Invalid date: '' @ date)))"
    by (induction dates) (simp_all add: throwHttpError_def)
  have every: "(validateDates dates = Inr ()) = list_all dayjs_isValid dates"
    by (induction dates) (simp_all add: throwHttpError_def)
  have december: "dayjs_isValid ''2020-12-31''"
    by (simp add: dayjs_isValid_def is_digit_def nat_of_digits_def digit_of_def
        days_in_month_def)
  have february: "\<not> dayjs_isValid ''2020-02-31''"
    by (simp add: dayjs_isValid_def is_digit_def nat_of_digits_def digit_of_def
        days_in_month_def leap_year_def)
  have short: "\<not> dayjs_isValid ''123456''"
    by (simp add: dayjs_isValid_def)
  from first every december february short show ?thesis by blast
qed

theorem validateDates_first_invalid_witness:
  "validateDates [''2010-01-01'', ''2020-12-31''] = Inr ()
   \<and> validateDates [''2010-01-01'', ''2020-02-31'', ''123456'']
       = Inl (HttpError 400 ''Invalid date: 2020-02-31'')
   \<and> validateDates [''123456''] = Inl (HttpError 400 ''Invalid date: 123456'')"
  using validateDates_first_invalid [of "[''2010-01-01'', ''2020-12-31'']"]
    validateDates_first_invalid [of "[''2010-01-01'', ''2020-02-31'', ''123456'']"]
    validateDates_first_invalid [of "[''123456'']"]
  by (simp add: dayjs_isValid_def is_digit_def nat_of_digits_def digit_of_def
      days_in_month_def leap_year_def)

text \<open>
  C7. With valid dates and no contractor fetched, the best-profession query does not
  answer the fallback string: \<open>reduce\<close> over the empty list of professions throws,
  and the answer is 500 with the engine's message. (With at least one contractor and
  no profession earning anything the answer is the fallback string:
  \<open>bestProfession_nothing_paid\<close>.)
\<close>

theorem getBestProfession_no_contractors:
  "validateDates [''2010-01-01'', ''2020-12-31''] = Inr ()
   \<and> bestProfession [] = Inl (TypeError ''Reduce of empty array with no initial value'')
   \<and> getBestProfession ''2010-01-01'' ''2020-12-31'' []
       = Response 500 (Message ''Reduce of empty array with no initial value'')"
  by (simp add: getBestProfession_def bestProfession_def object_keys_def errorHandler_def
      dayjs_isValid_def is_digit_def nat_of_digits_def digit_of_def days_in_month_def
      leap_year_def)

text \<open>
  C8. With valid dates, the best-clients query answers 200 with the first \<open>N\<close>
  entries (2 when the query gives no limit) of the clients' entries sorted in
  descending order of their paid sum; each entry has the client's id, its first and
  last name joined by one space, and the sum of the prices of its fetched jobs.
\<close>

theorem bestClients_top:
  "(validateDates [start, end] = Inr () \<longrightarrow>
      getBestClients start end limit users = Response 200 (Json (bestClients users limit)))
   \<and> bestClients users None = bestClients users (Some 2)
   \<and> bestClients users (Some (int n)) = take n (array_sort byPaid (map toEntry users))
   \<and> length (bestClients users (Some (int n))) = min n (length users)
   \<and> mset (array_sort byPaid (map toEntry users)) = mset (map toEntry users)
   \<and> sorted_wrt (\<lambda>a b. entry_paid a \<ge> entry_paid b) (array_sort byPaid (map toEntry users))
   \<and> (\<forall>e \<in> set (bestClients users limit). \<exists>u \<in> set users.
         entry_id e = pid u
       \<and> fullName e = firstName u @ '' '' @ lastName u
       \<and> entry_paid e = (\<Sum>j \<leftarrow> concat (map Jobs (Client_contracts u)). price j))"
proof -
  let ?sorted = "array_sort byPaid (map toEntry users)"
  have len: "length ?sorted = length users"
    using mset_array_sort [of byPaid "map toEntry users"] by (metis length_map size_mset)
  have set_sorted: "set ?sorted = toEntry ` set users"
    using mset_array_sort [of byPaid "map toEntry users"] by (metis set_map set_mset_mset)
  obtain k where k: "bestClients users limit = take k ?sorted"
    unfolding bestClients_def using slice0_prefix by blast
  have entries: "\<exists>u \<in> set users.
         entry_id e = pid u
       \<and> fullName e = firstName u @ '' '' @ lastName u
       \<and> entry_paid e = (\<Sum>j \<leftarrow> concat (map Jobs (Client_contracts u)). price j)"
    if "e \<in> set (bestClients users limit)" for e
  proof -
    from that k have "e \<in> set ?sorted" by (auto dest: in_set_takeD)
    with set_sorted obtain u where "u \<in> set users" "e = toEntry u" by auto
    then show ?thesis by (auto simp: toEntry_def contractsSum_sum)
  qed
  have answer: "validateDates [start, end] = Inr () \<longrightarrow>
      getBestClients start end limit users = Response 200 (Json (bestClients users limit))"
    by (simp add: getBestClients_def)
  have default: "bestClients users None = bestClients users (Some 2)"
    by (simp add: bestClients_def)
  have top: "bestClients users (Some (int n)) = take n ?sorted"
    by (simp add: bestClients_def slice0_nat)
  have count: "length (bestClients users (Some (int n))) = min n (length users)"
    unfolding top by (simp add: len)
  have perm: "mset ?sorted = mset (map toEntry users)"
    by (rule mset_array_sort)
  have desc: "sorted_wrt (\<lambda>a b. entry_paid a \<ge> entry_paid b) ?sorted"
    by (rule descending_array_sort)
  from answer default top count perm desc entries show ?thesis by blast
qed

theorem bestClients_top_witness:
  "getBestClients ''2010-01-01'' ''2020-12-31'' None three_clients =
     Response 200 (Json
       [\<lparr>entry_id = 1, fullName = ''Harry Potter'', entry_paid = 500\<rparr>,
        \<lparr>entry_id = 2, fullName = ''Mr Robot'', entry_paid = 300\<rparr>])
   \<and> bestClients three_clients (Some 1) =
       [\<lparr>entry_id = 1, fullName = ''Harry Potter'', entry_paid = 500\<rparr>]
   \<and> bestClients three_clients (Some 5) =
       [\<lparr>entry_id = 1, fullName = ''Harry Potter'', entry_paid = 500\<rparr>,
        \<lparr>entry_id = 2, fullName = ''Mr Robot'', entry_paid = 300\<rparr>,
        \<lparr>entry_id = 3, fullName = ''John Snow'', entry_paid = 0\<rparr>]"
proof -
  have dates: "validateDates [''2010-01-01'', ''2020-12-31''] = Inr ()"
    by (simp add: dayjs_isValid_def is_digit_def nat_of_digits_def digit_of_def
        days_in_month_def leap_year_def)
  have sorted: "array_sort byPaid (map toEntry three_clients) =
       [\<lparr>entry_id = 1, fullName = ''Harry Potter'', entry_paid = 500\<rparr>,
        \<lparr>entry_id = 2, fullName = ''Mr Robot'', entry_paid = 300\<rparr>,
        \<lparr>entry_id = 3, fullName = ''John Snow'', entry_paid = 0\<rparr>]"
    by (simp add: array_sort_def byPaid_def toEntry_def three_clients_def client_with_def
        contractsSum_def price_or_0_def)
  show ?thesis
    using bestClients_top [of "''2010-01-01''" "''2020-12-31''" None three_clients 2] dates
      bestClients_top [of "''2010-01-01''" "''2020-12-31''" None three_clients 1]
      bestClients_top [of "''2010-01-01''" "''2020-12-31''" None three_clients 5]
    by (simp add: sorted)
qed

text \<open>
  C9. The already-paid check tests the truthiness of \<open>paid\<close>: a job whose \<open>paid\<close>
  is \<open>false\<close>, \<open>0\<close>, the empty string, \<open>null\<close>, \<open>undefined\<close> or \<open>NaN\<close> passes
  it, and the outcome is that of the balance check.
\<close>

theorem validatePayJob_falsy_is_unpaid:
  assumes "paid j \<in> set [JBool False, JNum 0, JStr [], JNull, JUndefined, JNaN]"
    and "Client (Contract j) = Some c"
  shows "\<not> truthy (paid j)
    \<and> validatePayJob (Some j) \<noteq> Inl (HttpError 400 ''Job is already paid'')
    \<and> validatePayJob (Some j) =
         (if price j > balance c
          then Inl (HttpError 400 ''Not enough balance to pay for this job'')
          else Inr ())"
  using assms by (auto simp: validatePayJob_def throwHttpError_def)

theorem validatePayJob_falsy_is_unpaid_witness:
  "validatePayJob (Some (test_job 201 (JBool False))) = Inr ()
   \<and> validatePayJob (Some (test_job 201 (JNum 0))) = Inr ()
   \<and> validatePayJob (Some (test_job 201 (JStr []))) = Inr ()
   \<and> validatePayJob (Some (test_job 3000 (JBool False)))
       = Inl (HttpError 400 ''Not enough balance to pay for this job'')"
proof -
  have c: "Client (Contract (test_job a p)) = Some harry" for a p
    by (simp add: test_job_def)
  have p: "paid (test_job a p) = p" for a p
    by (simp add: test_job_def)
  have f: "JBool False \<in> set [JBool False, JNum 0, JStr [], JNull, JUndefined, JNaN]"
    "JNum 0 \<in> set [JBool False, JNum 0, JStr [], JNull, JUndefined, JNaN]"
    "JStr [] \<in> set [JBool False, JNum 0, JStr [], JNull, JUndefined, JNaN]" by simp_all
  show ?thesis
    using validatePayJob_falsy_is_unpaid [of "test_job 201 (JBool False)" harry]
      validatePayJob_falsy_is_unpaid [of "test_job 201 (JNum 0)" harry]
      validatePayJob_falsy_is_unpaid [of "test_job 201 (JStr [])" harry]
      validatePayJob_falsy_is_unpaid [of "test_job 3000 (JBool False)" harry]
    by (simp add: c p f) (simp add: test_job_def harry_def)
qed

text \<open>
  C10. For a client profile whose unpaid jobs sum to 0, every positive amount fails
  the cap check (it is more than a quarter of 0), so no deposit request passes the
  validation: a missing, zero or negative amount is rejected before the cap.
\<close>

theorem validateDepositBalance_nothing_owed:
  assumes "type u = ''client''" and "totalJobsToPayAmount u = 0"
  shows "(0 < amount \<longrightarrow>
           validateDepositBalance numberToString (Some u) (Some amount) =
             Inl (HttpError 400
               (''Client can'' @ [CHR 0x27] @ ''t deposit more than 25% his total of jobs to pay (''
                 @ numberToString 0 @ '')'')))
       \<and> (\<forall>depositValue. \<exists>message.
             validateDepositBalance numberToString (Some u) depositValue
               = Inl (HttpError 400 message))"
  using assms
  by (auto simp: validateDepositBalance_def throwHttpError_def capMessage_def
      split: option.splits)

theorem validateDepositBalance_nothing_owed_witness:
  "type idle_client = ''client''
   \<and> totalJobsToPayAmount idle_client = 0
   \<and> validateDepositBalance (\<lambda>n. ''0'') (Some idle_client) (Some (1 / 100)) =
        Inl (HttpError 400
          (''Client can'' @ [CHR 0x27] @ ''t deposit more than 25% his total of jobs to pay (0)''))"
proof -
  have t: "type idle_client = ''client''" by (simp add: idle_client_def)
  have z: "totalJobsToPayAmount idle_client = 0"
    by (simp add: idle_client_def totalJobsToPayAmount_def)
  show ?thesis
    using validateDepositBalance_nothing_owed [OF t z, of "1 / 100" "\<lambda>n. ''0''"] t z by simp
qed

end
